theory Spec2Isabelle
  imports Main
begin

section \<open>The batch uploader of app.py\<close>

text \<open>
  app.py keeps one module-level dictionary \<open>upload_status\<close>, two
  \<open>threading.Event\<close> objects and the Flask session, serves eight routes and
  starts one worker thread per accepted \<open>/start\<close>. The route \<open>/\<close> only renders
  a page and is left out. The model below keeps the
  source's names. The request handlers are functions from the state to a response and
  a new state; the worker is a machine with one program counter per source line that
  touches shared state, so that requests can be interleaved between any two of its
  lines.
\<close>

subsection \<open>Data\<close>

text \<open>
  A product is the dictionary that \<open>parse_spreadsheet\<close> returns for one row.
\<close>

type_synonym product = "string \<rightharpoonup> string"

text \<open>
  The \<open>"product"\<close> entry of an error record is the string \<open>"note"\<close> or
  \<open>"global"\<close>, or the one-based item number \<open>i + 1\<close>.
\<close>

datatype product_ref = Name string | Index nat

record error_record =
  e_product :: product_ref
  e_title :: string
  e_error :: string

text \<open>
  The \<open>"status"\<close> entry holds one of the strings \<open>"idle"\<close>,
  \<open>"running"\<close>, \<open>"paused"\<close>, \<open>"completed"\<close>, \<open>"stopped"\<close>,
  \<open>"error"\<close>. The four counters only ever receive \<open>0\<close>, \<open>len(products)\<close>,
  \<open>i + 1\<close> and \<open>+= 1\<close>, so they are natural numbers.
\<close>

datatype state = Idle | Running | Paused | Completed | Stopped | Error

record job_status =
  total :: nat
  current :: nat
  success :: nat
  failed :: nat
  status :: state
  errors :: "error_record list"
  current_product :: string

text \<open>Lines 19 to 27, and again lines 60 to 68.\<close>

definition initial_status :: job_status where
  "initial_status =
     \<lparr>total = 0, current = 0, success = 0, failed = 0, status = Idle, errors = [],
      current_product = ''''\<rparr>"

text \<open>The keys of the Flask session that app.py uses; \<open>None\<close> is an absent key.\<close>

record session =
  s_file_path :: "string option"
  s_product_count :: "nat option"
  s_image_paths :: "string list option"
  s_image_mode :: "string option"
  s_image_mappings :: "(string \<rightharpoonup> string) option"

text \<open>
  What app.py imports and does not define: the spreadsheet parser, which reads the file
  at a path and returns the rows or raises (\<open>Inl\<close> carries \<open>str(e)\<close>), werkzeug's
  \<open>secure_filename\<close>, and the two directories made by \<open>tempfile.mkdtemp()\<close>.
  The parser is given the contents of the file, \<open>None\<close> when there is no file.
  \<open>sleep_limit\<close> is the first delay that the clock of the machine refuses in
  \<open>time.sleep\<close>.
\<close>

record ext =
  parse_spreadsheet :: "string option \<Rightarrow> string + product list"
  secure_filename :: "string \<Rightarrow> string"
  SPREADSHEET_FOLDER :: string
  IMAGES_FOLDER :: string
  sleep_limit :: int

text \<open>
  The processor bound to \<open>automation\<close>: \<open>upload_product\<close> on item \<open>i\<close> returns
  or raises (\<open>Some\<close> carries \<open>str(e)\<close>), and so does \<open>close\<close>.
\<close>

record automation =
  upload_product :: "nat \<Rightarrow> product \<Rightarrow> string option"
  close :: "string option"

datatype call = Upload_product product | Close

subsection \<open>The worker thread\<close>

text \<open>
  A program counter names a line of \<open>upload_worker\<close>. \<open>L159\<close> stands for lines
  159 to 166, which touch only the worker's own product; \<open>Exit\<close> is the returned
  function.
\<close>

datatype pc =
  L116 | L117 | L118 | L121 | L128 | L129 | L132
  | L142 | L144 | L145 | L149 | L150 | L151 | L153 | L154 | L155
  | L159 | L169 | L170 | L171 | L175 | L176
  | L183 | L184 | L189 | L190 | Exit

text \<open>
  The locals of one call of \<open>upload_worker\<close>. \<open>w_automation\<close> and
  \<open>w_image_mappings\<close> are the names \<open>automation\<close> and \<open>image_mappings\<close>:
  \<open>None\<close> is an unbound name, whose use raises NameError. \<open>w_slept\<close> adds up the
  seconds passed to \<open>time.sleep\<close> and \<open>w_calls\<close> lists the calls made on the
  processor.
\<close>

record worker =
  w_file_path :: string
  w_headless :: bool
  w_delay :: int
  w_products :: "product list"
  w_i :: nat
  w_product :: product
  w_e :: string
  w_automation :: "automation option"
  w_image_mappings :: "(string \<rightharpoonup> string) option"
  w_pc :: pc
  w_slept :: int
  w_calls :: "call list"

subsection \<open>The state of the process\<close>

record sys =
  upload_status :: job_status
  upload_pause_event :: bool
  upload_stop_event :: bool
  session :: session
  disk :: "string \<rightharpoonup> string"
  threads :: "worker list"

definition init :: sys where
  "init =
     \<lparr>upload_status = initial_status, upload_pause_event = False,
      upload_stop_event = False,
      session = \<lparr>s_file_path = None, s_product_count = None, s_image_paths = None,
                 s_image_mode = None, s_image_mappings = None\<rparr>,
      disk = Map.empty, threads = []\<rparr>"

subsection \<open>Helpers from the Python library\<close>

text \<open>\<open>str.lower\<close> on the ASCII letters.\<close>

definition lower_char :: "char \<Rightarrow> char" where
  "lower_char c =
     (let n = (of_char c :: nat) in if 65 \<le> n \<and> n \<le> 90 then char_of (n + 32) else c)"

definition lower :: "string \<Rightarrow> string" where
  "lower s = map lower_char s"

text \<open>\<open>filename.rsplit('.', 1)[1]\<close>, for a filename that contains a dot.\<close>

definition rsplit_dot_1 :: "string \<Rightarrow> string" where
  "rsplit_dot_1 filename = rev (takeWhile (\<lambda>c. c \<noteq> CHR ''.'') (rev filename))"

text \<open>\<open>os.path.join\<close> of two components on POSIX.\<close>

definition path_join :: "string \<Rightarrow> string \<Rightarrow> string" where
  "path_join a b =
     (if b \<noteq> [] \<and> hd b = CHR ''/'' then b
      else if a = [] \<or> last a = CHR ''/'' then a @ b
      else a @ ''/'' @ b)"

text \<open>\<open>str\<close> of a natural number, for \<open>f'Product {i+1}'\<close>.\<close>

definition digit_char :: "nat \<Rightarrow> char" where
  "digit_char d = char_of (48 + d)"

fun str_nat :: "nat \<Rightarrow> string" where
  "str_nat n = (if n < 10 then [digit_char n] else str_nat (n div 10) @ [digit_char (n mod 10)])"

declare str_nat.simps [simp del]

text \<open>\<open>product.get('title', f'Product {i+1}')\<close>\<close>

definition get_title :: "product \<Rightarrow> nat \<Rightarrow> string" where
  "get_title product i =
     (case product ''title'' of Some t \<Rightarrow> t | None \<Rightarrow> ''Product '' @ str_nat (i + 1))"

text \<open>
  \<open>str(e)\<close> of a KeyError and of a NameError; \<open>CHR 0x27\<close> is the single quote.
\<close>

definition key_error :: "string \<Rightarrow> string" where
  "key_error k = [CHR 0x27] @ k @ [CHR 0x27]"

definition name_error :: "string \<Rightarrow> string" where
  "name_error n = ''name '' @ [CHR 0x27] @ n @ [CHR 0x27] @ '' is not defined''"

text \<open>
  \<open>time.sleep(d)\<close>: \<open>None\<close> when it returns after \<open>d\<close> seconds, \<open>Some\<close> with
  \<open>str(e)\<close> when it raises. It raises ValueError on a negative delay, OverflowError
  when the delay in nanoseconds does not fit 64 bits, and OSError when the deadline is
  past what the clock accepts, which depends on the uptime of the machine and happens
  for no delay below \<open>2 ^ 32\<close> seconds. The delays 5 and 1 of lines 128 and 151 are
  always accepted.
\<close>

definition time_sleep :: "ext \<Rightarrow> int \<Rightarrow> string option" where
  "time_sleep E d =
     (if d < 0 then Some ''sleep length must be non-negative''
      else if 9223372037 \<le> d then Some ''timestamp too large to convert to C _PyTime_t''
      else if 4294967296 \<le> d \<and> sleep_limit E \<le> d then Some ''[Errno 22] Invalid argument''
      else None)"

subsection \<open>The routes\<close>

datatype response =
  Success string
  | Uploaded nat "string list"
  | Saved string
  | Snapshot job_status
  | Failure nat string

definition ALLOWED_SPREADSHEET_EXTENSIONS :: "string set" where
  "ALLOWED_SPREADSHEET_EXTENSIONS = {''csv'', ''xlsx'', ''xls''}"

definition ALLOWED_IMAGE_EXTENSIONS :: "string set" where
  "ALLOWED_IMAGE_EXTENSIONS = {''png'', ''jpg'', ''jpeg'', ''gif''}"

definition allowed_spreadsheet_file :: "string \<Rightarrow> bool" where
  "allowed_spreadsheet_file filename \<longleftrightarrow>
     CHR ''.'' \<in> set filename \<and> lower (rsplit_dot_1 filename) \<in> ALLOWED_SPREADSHEET_EXTENSIONS"

definition allowed_image_file :: "string \<Rightarrow> bool" where
  "allowed_image_file filename \<longleftrightarrow>
     CHR ''.'' \<in> set filename \<and> lower (rsplit_dot_1 filename) \<in> ALLOWED_IMAGE_EXTENSIONS"

text \<open>
  The body of a \<open>POST /upload\<close>: the part named \<open>file\<close>, if any, with its filename
  and contents.
\<close>

record upload_request =
  r_file :: "(string \<times> string) option"

text \<open>
  \<open>upload_file\<close>, lines 55 to 108. The status is replaced first; the file is saved
  before it is parsed; the session keys are written one after the other inside the
  \<open>try\<close>, so a row without \<open>image_path\<close> leaves the first two written.
\<close>

definition upload_file :: "ext \<Rightarrow> upload_request \<Rightarrow> sys \<Rightarrow> response \<times> sys" where
  "upload_file E req s =
     (let s0 = s\<lparr>upload_status := initial_status\<rparr> in
      case r_file req of
        None \<Rightarrow> (Failure 400 ''No file part'', s0)
      | Some (filename, content) \<Rightarrow>
          if filename = '''' then (Failure 400 ''No file selected'', s0)
          else if \<not> allowed_spreadsheet_file filename
          then (Failure 400 ''File type not allowed'', s0)
          else
            let file_path = path_join (SPREADSHEET_FOLDER E) (secure_filename E filename);
                s1 = s0\<lparr>disk := (disk s0)(file_path \<mapsto> content)\<rparr>
            in case parse_spreadsheet E (disk s1 file_path) of
                 Inl e \<Rightarrow> (Failure 500 (''Error processing spreadsheet: '' @ e), s1)
               | Inr products \<Rightarrow>
                   let s2 = s1\<lparr>session := (session s1)
                              \<lparr>s_file_path := Some file_path,
                               s_product_count := Some (length products)\<rparr>\<rparr>
                   in if \<forall>product \<in> set products. product ''image_path'' \<noteq> None
                      then
                        let image_paths = map (\<lambda>product. the (product ''image_path'')) products
                        in (Uploaded (length products) image_paths,
                            s2\<lparr>session := (session s2)\<lparr>s_image_paths := Some image_paths\<rparr>\<rparr>)
                      else (Failure 500 (''Error processing spreadsheet: '' @ key_error ''image_path''),
                            s2))"

text \<open>
  The JSON body of a \<open>POST /start\<close>. \<open>int(data.get('delay', 2))\<close> raises on a
  value that is not a number, and Flask answers 500.
\<close>

datatype delay_arg = Int_ok int | Int_raises

record start_request =
  r_headless :: "bool option"
  r_delay :: "delay_arg option"
  r_image_mode :: "string option"

text \<open>
  The thread object made on lines 224 to 227: \<open>upload_worker\<close> with its three
  arguments, about to run line 116. Nothing in the function binds \<open>automation\<close> or
  \<open>image_mappings\<close>: lines 136 and 139 are comments.
\<close>

definition upload_worker :: "string \<Rightarrow> bool \<Rightarrow> int \<Rightarrow> worker" where
  "upload_worker file_path headless delay =
     \<lparr>w_file_path = file_path, w_headless = headless, w_delay = delay, w_products = [],
      w_i = 0, w_product = Map.empty, w_e = '''', w_automation = None,
      w_image_mappings = None, w_pc = L116, w_slept = 0, w_calls = []\<rparr>"

text \<open>\<open>start_upload\<close>, lines 197 to 231.\<close>

definition start_upload :: "start_request \<Rightarrow> sys \<Rightarrow> response \<times> sys" where
  "start_upload data s =
     (case s_file_path (session s) of
        None \<Rightarrow> (Failure 400 ''No file has been uploaded yet'', s)
      | Some file_path \<Rightarrow>
          if status (upload_status s) = Running
          then (Failure 400 ''Upload already in progress'', s)
          else
            case (case r_delay data of None \<Rightarrow> Int_ok 2 | Some d \<Rightarrow> d) of
              Int_raises \<Rightarrow> (Failure 500 ''ValueError'', s)
            | Int_ok delay \<Rightarrow>
                let headless = (case r_headless data of None \<Rightarrow> False | Some h \<Rightarrow> h);
                    image_mode = (case r_image_mode data of None \<Rightarrow> ''local'' | Some m \<Rightarrow> m)
                in (Success ''Upload started'',
                    s\<lparr>upload_pause_event := False,
                      upload_stop_event := False,
                      session := (session s)\<lparr>s_image_mode := Some image_mode\<rparr>,
                      threads := threads s @ [upload_worker file_path headless delay]\<rparr>))"

text \<open>The form of a \<open>POST /upload_image\<close>.\<close>

record image_request =
  r_image :: "(string \<times> string) option"
  r_index :: "string option"
  r_original_path :: "string option"

text \<open>
  Flask keeps the session in a cookie. It loads it at the start of a request and writes
  it back at the end only if the request assigned a key of the session itself; a change
  inside a value of the session does not mark it as modified and is lost with the
  request. \<open>upload_file\<close> and \<open>start_upload\<close> only assign keys; lines 258 to 262
  do both.

  Lines 258 to 262: the session object of the request after them, and whether it is
  marked as modified. Line 260 assigns a key, line 262 changes the dictionary under it.
\<close>

definition submit_image_mapping :: "string \<Rightarrow> string \<Rightarrow> session \<Rightarrow> session \<times> bool" where
  "submit_image_mapping original_path file_path sess =
     (let (sess', modified) =
            (if s_image_mappings sess = None
             then (sess\<lparr>s_image_mappings := Some Map.empty\<rparr>, True) else (sess, False))
      in (sess'\<lparr>s_image_mappings :=
                  map_option (\<lambda>m. m(original_path \<mapsto> file_path)) (s_image_mappings sess')\<rparr>,
          modified))"

text \<open>The session that the next request loads.\<close>

definition save_session :: "session \<Rightarrow> session \<times> bool \<Rightarrow> session" where
  "save_session loaded result = (if snd result then fst result else loaded)"

text \<open>\<open>upload_image\<close>, lines 234 to 268.\<close>

definition upload_image :: "ext \<Rightarrow> image_request \<Rightarrow> sys \<Rightarrow> response \<times> sys" where
  "upload_image E req s =
     (case r_image req of
        None \<Rightarrow> (Failure 400 ''No image file part'', s)
      | Some (filename, content) \<Rightarrow>
          if filename = '''' then (Failure 400 ''No image selected'', s)
          else if \<not> allowed_image_file filename
          then (Failure 400 ''Image file type not allowed'', s)
          else
            case (r_index req, r_original_path req) of
              (Some image_index, Some original_path) \<Rightarrow>
                if image_index = '''' \<or> original_path = ''''
                then (Failure 400 ''Missing image index or original path'', s)
                else
                  let file_path = path_join (IMAGES_FOLDER E) (secure_filename E filename)
                  in (Saved file_path,
                      s\<lparr>disk := (disk s)(file_path \<mapsto> content),
                        session := save_session (session s)
                          (submit_image_mapping original_path file_path (session s))\<rparr>)
            | _ \<Rightarrow> (Failure 400 ''Missing image index or original path'', s))"

text \<open>\<open>get_status\<close>, lines 271 to 273.\<close>

definition get_status :: "sys \<Rightarrow> response \<times> sys" where
  "get_status s = (Snapshot (upload_status s), s)"

text \<open>\<open>pause_upload\<close>, lines 276 to 282.\<close>

definition pause_upload :: "sys \<Rightarrow> response \<times> sys" where
  "pause_upload s =
     (if status (upload_status s) \<noteq> Running then (Failure 400 ''No active upload to pause'', s)
      else (Success ''Upload paused'', s\<lparr>upload_pause_event := True\<rparr>))"

text \<open>\<open>resume_upload\<close>, lines 285 to 291.\<close>

definition resume_upload :: "sys \<Rightarrow> response \<times> sys" where
  "resume_upload s =
     (if status (upload_status s) \<noteq> Paused then (Failure 400 ''No paused upload to resume'', s)
      else (Success ''Upload resumed'', s\<lparr>upload_pause_event := False\<rparr>))"

text \<open>\<open>stop_upload\<close>, lines 294 to 301.\<close>

definition stop_upload :: "sys \<Rightarrow> response \<times> sys" where
  "stop_upload s =
     (if status (upload_status s) \<notin> {Running, Paused}
      then (Failure 400 ''No active upload to stop'', s)
      else (Success ''Upload stopped'', s\<lparr>upload_stop_event := True, upload_pause_event := False\<rparr>))"

subsection \<open>The lines of \<open>upload_worker\<close>\<close>

text \<open>
  Lines 160 to 162: the path that replaces \<open>original_path\<close>, read from the table
  bound to \<open>image_mappings\<close>.
\<close>

definition resolve :: "(string \<rightharpoonup> string) \<Rightarrow> string \<Rightarrow> string" where
  "resolve image_mappings original_path =
     (if original_path \<in> dom image_mappings then the (image_mappings original_path)
      else original_path)"

text \<open>The dictionary appended on lines 121 to 125.\<close>

definition note_record :: error_record where
  "note_record =
     \<lparr>e_product = Name ''note'', e_title = ''Local Execution Required'',
      e_error = ''This batch uploader needs to be run on your local machine to access Chrome. Please download this code and run it locally.''\<rparr>"

text \<open>The dictionary appended on lines 176 to 180, for item \<open>i\<close>.\<close>

definition item_record :: "nat \<Rightarrow> product \<Rightarrow> string \<Rightarrow> error_record" where
  "item_record i product e =
     \<lparr>e_product = Index (i + 1), e_title = get_title product i, e_error = e\<rparr>"

text \<open>The dictionary appended on lines 190 to 194.\<close>

definition global_record :: "string \<Rightarrow> error_record" where
  "global_record e = \<lparr>e_product = Name ''global'', e_title = ''Global Error'', e_error = e\<rparr>"

text \<open>An assignment to a key of \<open>upload_status\<close>.\<close>

definition set_status :: "(job_status \<Rightarrow> job_status) \<Rightarrow> sys \<Rightarrow> sys" where
  "set_status f s = s\<lparr>upload_status := f (upload_status s)\<rparr>"

text \<open>
  One line of \<open>upload_worker\<close> (lines 110 to 194) at a time. An exception raised
  between lines 116 and 184 outside the inner \<open>try\<close> goes to line 189; one raised
  between lines 159 and 171 goes to line 175. Line 132 returns, and no line jumps to
  line 142. The loop variable \<open>i\<close> is \<open>w_i\<close> and \<open>product\<close> is \<open>w_product\<close>;
  the assignment on line 162 changes the dictionary that is also in the list.
\<close>

fun at_line :: "pc \<Rightarrow> ext \<Rightarrow> sys \<Rightarrow> worker \<Rightarrow> sys \<times> worker" where
  "at_line L116 E s w =
     (case parse_spreadsheet E (disk s (w_file_path w)) of
        Inr products \<Rightarrow> (s, w\<lparr>w_products := products, w_pc := L117\<rparr>)
      | Inl e \<Rightarrow> (s, w\<lparr>w_e := e, w_pc := L189\<rparr>))"
| "at_line L117 E s w =
     (set_status (\<lambda>u. u\<lparr>total := length (w_products w)\<rparr>) s, w\<lparr>w_pc := L118\<rparr>)"
| "at_line L118 E s w = (set_status (\<lambda>u. u\<lparr>status := Running\<rparr>) s, w\<lparr>w_pc := L121\<rparr>)"
| "at_line L121 E s w =
     (set_status (\<lambda>u. u\<lparr>errors := errors u @ [note_record]\<rparr>) s, w\<lparr>w_pc := L128\<rparr>)"
| "at_line L128 E s w = (s, w\<lparr>w_slept := w_slept w + 5, w_pc := L129\<rparr>)"
| "at_line L129 E s w = (set_status (\<lambda>u. u\<lparr>status := Completed\<rparr>) s, w\<lparr>w_pc := L132\<rparr>)"
| "at_line L132 E s w = (s, w\<lparr>w_pc := Exit\<rparr>)"
| "at_line L142 E s w =
     (if w_i w < length (w_products w)
      then (s, w\<lparr>w_product := w_products w ! w_i w, w_pc := L144\<rparr>)
      else (s, w\<lparr>w_pc := L183\<rparr>))"
| "at_line L144 E s w =
     (if upload_stop_event s then (s, w\<lparr>w_pc := L145\<rparr>) else (s, w\<lparr>w_pc := L149\<rparr>))"
| "at_line L145 E s w = (set_status (\<lambda>u. u\<lparr>status := Stopped\<rparr>) s, w\<lparr>w_pc := L183\<rparr>)"
| "at_line L149 E s w =
     (if upload_pause_event s \<and> \<not> upload_stop_event s then (s, w\<lparr>w_pc := L150\<rparr>)
      else (s, w\<lparr>w_pc := L153\<rparr>))"
| "at_line L150 E s w = (set_status (\<lambda>u. u\<lparr>status := Paused\<rparr>) s, w\<lparr>w_pc := L151\<rparr>)"
| "at_line L151 E s w = (s, w\<lparr>w_slept := w_slept w + 1, w_pc := L149\<rparr>)"
| "at_line L153 E s w = (set_status (\<lambda>u. u\<lparr>status := Running\<rparr>) s, w\<lparr>w_pc := L154\<rparr>)"
| "at_line L154 E s w = (set_status (\<lambda>u. u\<lparr>current := w_i w + 1\<rparr>) s, w\<lparr>w_pc := L155\<rparr>)"
| "at_line L155 E s w =
     (set_status (\<lambda>u. u\<lparr>current_product := get_title (w_product w) (w_i w)\<rparr>) s,
      w\<lparr>w_pc := L159\<rparr>)"
| "at_line L159 E s w =
     (case w_product w ''image_path'' of
        None \<Rightarrow> (s, w\<lparr>w_e := key_error ''image_path'', w_pc := L175\<rparr>)
      | Some original_path \<Rightarrow>
          (case w_image_mappings w of
             None \<Rightarrow> (s, w\<lparr>w_e := name_error ''image_mappings'', w_pc := L175\<rparr>)
           | Some image_mappings \<Rightarrow>
               let product' =
                     (if original_path \<in> dom image_mappings
                      then (w_product w)(''image_path'' \<mapsto> resolve image_mappings original_path)
                      else w_product w);
                   w' = w\<lparr>w_product := product',
                          w_products := (w_products w)[w_i w := product']\<rparr>
               in if product' ''title'' = None
                  then (s, w'\<lparr>w_e := key_error ''title'', w_pc := L175\<rparr>)
                  else (s, w'\<lparr>w_pc := L169\<rparr>)))"
| "at_line L169 E s w =
     (case w_automation w of
        None \<Rightarrow> (s, w\<lparr>w_e := name_error ''automation'', w_pc := L175\<rparr>)
      | Some a \<Rightarrow>
          let w' = w\<lparr>w_calls := w_calls w @ [Upload_product (w_product w)]\<rparr>
          in case upload_product a (w_i w) (w_product w) of
               None \<Rightarrow> (s, w'\<lparr>w_pc := L170\<rparr>)
             | Some e \<Rightarrow> (s, w'\<lparr>w_e := e, w_pc := L175\<rparr>))"
| "at_line L170 E s w = (set_status (\<lambda>u. u\<lparr>success := success u + 1\<rparr>) s, w\<lparr>w_pc := L171\<rparr>)"
| "at_line L171 E s w =
     (case time_sleep E (w_delay w) of
        Some e \<Rightarrow> (s, w\<lparr>w_e := e, w_pc := L175\<rparr>)
      | None \<Rightarrow> (s, w\<lparr>w_slept := w_slept w + w_delay w, w_i := w_i w + 1, w_pc := L142\<rparr>))"
| "at_line L175 E s w = (set_status (\<lambda>u. u\<lparr>failed := failed u + 1\<rparr>) s, w\<lparr>w_pc := L176\<rparr>)"
| "at_line L176 E s w =
     (set_status (\<lambda>u. u\<lparr>errors := errors u @
        [item_record (w_i w) (w_product w) (w_e w)]\<rparr>) s,
      w\<lparr>w_i := w_i w + 1, w_pc := L142\<rparr>)"
| "at_line L183 E s w =
     (case w_automation w of
        None \<Rightarrow> (s, w\<lparr>w_e := name_error ''automation'', w_pc := L189\<rparr>)
      | Some a \<Rightarrow>
          let w' = w\<lparr>w_calls := w_calls w @ [Close]\<rparr>
          in case close a of
               None \<Rightarrow> (s, w'\<lparr>w_pc := L184\<rparr>)
             | Some e \<Rightarrow> (s, w'\<lparr>w_e := e, w_pc := L189\<rparr>))"
| "at_line L184 E s w = (set_status (\<lambda>u. u\<lparr>status := Completed\<rparr>) s, w\<lparr>w_pc := Exit\<rparr>)"
| "at_line L189 E s w = (set_status (\<lambda>u. u\<lparr>status := Error\<rparr>) s, w\<lparr>w_pc := L190\<rparr>)"
| "at_line L190 E s w =
     (set_status (\<lambda>u. u\<lparr>errors := errors u @ [global_record (w_e w)]\<rparr>) s,
      w\<lparr>w_pc := Exit\<rparr>)"
| "at_line Exit E s w = (s, w)"

definition worker_step :: "ext \<Rightarrow> sys \<Rightarrow> worker \<Rightarrow> sys \<times> worker" where
  "worker_step E s w = at_line (w_pc w) E s w"

subsection \<open>Interleaving requests and worker lines\<close>

datatype request =
  Upload upload_request
  | Start start_request
  | Upload_image image_request
  | Get_status
  | Pause
  | Resume
  | Stop

fun handle :: "ext \<Rightarrow> request \<Rightarrow> sys \<Rightarrow> response \<times> sys" where
  "handle E (Upload req) s = upload_file E req s"
| "handle E (Start data) s = start_upload data s"
| "handle E (Upload_image req) s = upload_image E req s"
| "handle E Get_status s = get_status s"
| "handle E Pause s = pause_upload s"
| "handle E Resume s = resume_upload s"
| "handle E Stop s = stop_upload s"

text \<open>
  One step of the process: a request served from start to end, or the next line of the
  worker thread number \<open>t\<close>.
\<close>

datatype label = Req request | Work nat

fun step :: "ext \<Rightarrow> label \<Rightarrow> sys \<Rightarrow> sys" where
  "step E (Req r) s = snd (handle E r s)"
| "step E (Work t) s =
     (if t < length (threads s)
      then (case worker_step E s (threads s ! t) of
              (s', w') \<Rightarrow> s'\<lparr>threads := (threads s')[t := w']\<rparr>)
      else s)"

fun run :: "ext \<Rightarrow> label list \<Rightarrow> sys \<Rightarrow> sys" where
  "run E [] s = s"
| "run E (l # ls) s = run E ls (step E l s)"

inductive reachable :: "ext \<Rightarrow> sys \<Rightarrow> bool" for E :: ext where
  reachable_init: "reachable E init"
| reachable_step: "reachable E s \<Longrightarrow> reachable E (step E l s)"

text \<open>A worker thread is active until its function has returned.\<close>

definition active :: "sys \<Rightarrow> nat" where
  "active s = length (filter (\<lambda>w. w_pc w \<noteq> Exit) (threads s))"

subsection \<open>The lines before the return\<close>

text \<open>
  The lines that a worker started on line 116 can reach: the ones up to the
  \<open>return\<close> on line 132 and the handler on lines 186 to 194.
\<close>

definition stub_line :: "pc \<Rightarrow> bool" where
  "stub_line p \<longleftrightarrow> p \<in> {L116, L117, L118, L121, L128, L129, L132, L189, L190, Exit}"

definition stub_inv :: "sys \<Rightarrow> bool" where
  "stub_inv s \<longleftrightarrow>
     current (upload_status s) = 0 \<and> success (upload_status s) = 0 \<and>
     failed (upload_status s) = 0 \<and> status (upload_status s) \<noteq> Paused \<and>
     status (upload_status s) \<noteq> Stopped \<and>
     (\<forall>w \<in> set (threads s). stub_line (w_pc w) \<and> w_calls w = [] \<and>
        w_automation w = None \<and> w_image_mappings w = None)"

subsection \<open>Requests that only read the status or set the events\<close>

fun control :: "request \<Rightarrow> bool" where
  "control Get_status = True"
| "control Pause = True"
| "control Resume = True"
| "control Stop = True"
| "control _ = False"

text \<open>
  \<open>n\<close> lines of worker \<open>t\<close>, with the requests \<open>cs j\<close> served just before its
  line number \<open>j\<close>.
\<close>

fun interleaved :: "(nat \<Rightarrow> request list) \<Rightarrow> nat \<Rightarrow> nat \<Rightarrow> label list" where
  "interleaved cs t 0 = []"
| "interleaved cs t (Suc n) = map Req (cs 0) @ Work t # interleaved (\<lambda>j. cs (Suc j)) t n"

text \<open>Two states that differ in the two events at most.\<close>

definition frame :: "sys \<Rightarrow> sys \<Rightarrow> bool" where
  "frame s s' \<longleftrightarrow>
     upload_status s' = upload_status s \<and> session s' = session s \<and> disk s' = disk s \<and>
     threads s' = threads s"

subsection \<open>A worker running alone\<close>









subsection \<open>Sample inputs\<close>

definition item_A :: product where
  "item_A = [''title'' \<mapsto> ''A'', ''image_path'' \<mapsto> ''a.png'']"

definition item_B :: product where
  "item_B = [''title'' \<mapsto> ''B'', ''image_path'' \<mapsto> ''b.png'']"

text \<open>
  A parser that reads two rows from a file whose contents are \<open>good\<close> and raises on
  any other file.
\<close>

definition sample_ext :: ext where
  "sample_ext =
     \<lparr>parse_spreadsheet =
        (\<lambda>c. if c = Some ''good'' then Inr [item_A, item_B] else Inl ''bad spreadsheet''),
      secure_filename = (\<lambda>f. f), SPREADSHEET_FOLDER = ''/tmp/s'', IMAGES_FOLDER = ''/tmp/i'',
      sleep_limit = 9223356589\<rparr>"

definition post_upload :: "string \<Rightarrow> label" where
  "post_upload content = Req (Upload \<lparr>r_file = Some (''a.csv'', content)\<rparr>)"

definition no_options :: start_request where
  "no_options = \<lparr>r_headless = None, r_delay = None, r_image_mode = None\<rparr>"

definition post_start :: label where
  "post_start = Req (Start no_options)"

text \<open>A stop and a status request before the sleep, a pause request after it.\<close>

definition sample_requests :: "nat \<Rightarrow> request list" where
  "sample_requests j = (if j = 3 then [Stop, Get_status] else if j = 4 then [Pause] else [])"





text \<open>An image posted for the original path \<open>original\<close>.\<close>

definition post_image :: "string \<Rightarrow> string \<Rightarrow> label" where
  "post_image filename original =
     Req (Upload_image \<lparr>r_image = Some (filename, ''image''), r_index = Some ''0'',
                        r_original_path = Some original\<rparr>)"

section \<open>Properties\<close>

subsection \<open>What a worker started by \<open>/start\<close> can reach\<close>

lemma upload_file_status: "upload_status (snd (upload_file E req s)) = initial_status"
  by (simp add: upload_file_def Let_def split: option.splits prod.splits sum.splits)

lemma upload_file_threads: "threads (snd (upload_file E req s)) = threads s"
  by (simp add: upload_file_def Let_def split: option.splits prod.splits sum.splits)

lemma stub_inv_init: "stub_inv init"
  by (simp add: stub_inv_def init_def initial_status_def)

lemma stub_inv_handle: "stub_inv s \<Longrightarrow> stub_inv (snd (handle E r s))"
proof (cases r)
  case (Upload req)
  then show "stub_inv s \<Longrightarrow> ?thesis"
    by (simp add: stub_inv_def upload_file_status upload_file_threads initial_status_def)
next
  case (Start data)
  then show "stub_inv s \<Longrightarrow> ?thesis"
    by (auto simp: stub_inv_def start_upload_def upload_worker_def stub_line_def Let_def
        split: option.splits delay_arg.splits)
next
  case (Upload_image req)
  then show "stub_inv s \<Longrightarrow> ?thesis"
    by (auto simp: stub_inv_def upload_image_def Let_def split: option.splits prod.splits)
qed (auto simp: stub_inv_def get_status_def pause_upload_def resume_upload_def stop_upload_def)

lemma at_line_stub:
  assumes "stub_line p"
  shows "at_line p E s w = (s', w') \<Longrightarrow> w_pc w = p \<Longrightarrow> w_calls w = [] \<Longrightarrow>
     stub_line (w_pc w') \<and> w_calls w' = [] \<and> threads s' = threads s \<and>
     w_automation w' = w_automation w \<and> w_image_mappings w' = w_image_mappings w \<and>
     current (upload_status s') = current (upload_status s) \<and>
     success (upload_status s') = success (upload_status s) \<and>
     failed (upload_status s') = failed (upload_status s) \<and>
     status (upload_status s') \<in> {status (upload_status s), Running, Completed, Error}"
  using assms
  by (cases p) (auto simp: stub_line_def set_status_def split: sum.splits)

lemma stub_inv_work: "stub_inv s \<Longrightarrow> stub_inv (step E (Work t) s)"
proof (cases "t < length (threads s)")
  case False
  then show "stub_inv s \<Longrightarrow> ?thesis" by simp
next
  case True
  assume inv: "stub_inv s"
  obtain s' w' where sw: "worker_step E s (threads s ! t) = (s', w')" by force
  from inv True have w: "stub_line (w_pc (threads s ! t))" "w_calls (threads s ! t) = []"
    "w_automation (threads s ! t) = None" "w_image_mappings (threads s ! t) = None"
    by (auto simp: stub_inv_def)
  from at_line_stub[OF w(1) sw[unfolded worker_step_def] refl w(2)]
  have *: "stub_line (w_pc w')" "w_calls w' = []" "threads s' = threads s"
     "w_automation w' = None" "w_image_mappings w' = None"
     "current (upload_status s') = current (upload_status s)"
     "success (upload_status s') = success (upload_status s)"
     "failed (upload_status s') = failed (upload_status s)"
     "status (upload_status s') \<in> {status (upload_status s), Running, Completed, Error}"
    using w(3,4) by auto
  have st: "step E (Work t) s = s'\<lparr>threads := (threads s)[t := w']\<rparr>"
    using True sw * by simp
  show ?thesis
    unfolding st using inv *
    by (auto simp: stub_inv_def dest!: set_update_subset_insert[THEN subsetD])
qed

lemma stub_inv_reachable: "reachable E s \<Longrightarrow> stub_inv s"
proof (induction rule: reachable.induct)
  case reachable_init
  show ?case by (rule stub_inv_init)
next
  case (reachable_step s l)
  show ?case
  proof (cases l)
    case (Req r)
    with reachable_step.IH show ?thesis by (simp add: stub_inv_handle)
  next
    case (Work t)
    with reachable_step.IH show ?thesis by (simp only: stub_inv_work)
  qed
qed

lemma reachable_run: "reachable E s \<Longrightarrow> reachable E (run E ls s)"
  by (induction ls arbitrary: s) (auto intro: reachable_step)

subsection \<open>Starting a run\<close>

lemma run_append: "run E (xs @ ys) s = run E ys (run E xs s)"
  by (induction xs arbitrary: s) simp_all

lemma frame_control: "control r \<Longrightarrow> frame s s' \<Longrightarrow> frame s (snd (handle E r s'))"
  by (cases r) (auto simp: frame_def get_status_def pause_upload_def resume_upload_def stop_upload_def)

lemma frame_controls:
  "list_all control c \<Longrightarrow> frame s s' \<Longrightarrow> frame s (run E (map Req c) s')"
  by (induction c arbitrary: s') (auto simp: frame_control)

lemma at_line_frame:
  assumes "stub_line p" and "frame s s2"
  shows "frame (fst (at_line p E s w)) (fst (at_line p E s2 w)) \<and>
         snd (at_line p E s2 w) = snd (at_line p E s w) \<and>
         threads (fst (at_line p E s w)) = threads s \<and>
         threads (fst (at_line p E s2 w)) = threads s2"
  using assms
  by (cases p) (auto simp: stub_line_def frame_def set_status_def split: sum.splits)

lemma frame_work:
  assumes "frame s s2" and "t < length (threads s)" and "stub_line (w_pc (threads s ! t))"
  shows "frame (step E (Work t) s) (step E (Work t) s2)"
proof -
  from assms(1) have th: "threads s2 = threads s" by (simp add: frame_def)
  from at_line_frame[OF assms(3) assms(1), of E "threads s ! t"]
  show ?thesis using assms(2) th
    by (auto simp: frame_def worker_step_def split: prod.splits)
qed

lemma work_stub:
  assumes "t < length (threads s)" and "stub_line (w_pc (threads s ! t))"
  shows "t < length (threads (step E (Work t) s)) \<and>
         stub_line (w_pc (threads (step E (Work t) s) ! t))"
  using assms
  by (cases "w_pc (threads s ! t)")
     (auto simp: stub_line_def worker_step_def set_status_def split: sum.splits)

lemma frame_interleaved:
  assumes "frame s s2" and "t < length (threads s)" and "stub_line (w_pc (threads s ! t))"
    and "\<forall>j. list_all control (cs j)"
  shows "frame (run E (replicate n (Work t)) s) (run E (interleaved cs t n) s2)"
  using assms
proof (induction n arbitrary: s s2 cs)
  case 0
  then show ?case by simp
next
  case (Suc n)
  from Suc.prems(4) have c0: "list_all control (cs 0)" by blast
  from frame_controls[OF c0 Suc.prems(1)]
  have f1: "frame s (run E (map Req (cs 0)) s2)" .
  from frame_work[OF f1 Suc.prems(2,3)]
  have f2: "frame (step E (Work t) s) (step E (Work t) (run E (map Req (cs 0)) s2))" .
  from work_stub[OF Suc.prems(2,3)]
  have w: "t < length (threads (step E (Work t) s))"
    "stub_line (w_pc (threads (step E (Work t) s) ! t))" by blast+
  from Suc.prems(4) have cs': "\<forall>j. list_all control (cs (Suc j))" by blast
  from Suc.IH[OF f2 w cs'] show ?case by (simp add: run_append)
qed

lemma run_stub_ok:
  assumes "threads s = ths @ [upload_worker file_path h d]"
    and "parse_spreadsheet E (disk s file_path) = Inr products"
  shows "run E (replicate 7 (Work (length ths))) s =
     s\<lparr>upload_status := (upload_status s)
          \<lparr>total := length products, status := Completed,
           errors := errors (upload_status s) @ [note_record]\<rparr>,
       threads := ths @ [(upload_worker file_path h d)
          \<lparr>w_products := products, w_pc := Exit, w_slept := 5\<rparr>]\<rparr>"
  using assms
  by (simp add: eval_nat_numeral worker_step_def set_status_def upload_worker_def)

lemma run_stub_error:
  assumes "threads s = ths @ [upload_worker file_path h d]"
    and "parse_spreadsheet E (disk s file_path) = Inl e"
  shows "run E (replicate 3 (Work (length ths))) s =
     s\<lparr>upload_status := (upload_status s)
          \<lparr>status := Error, errors := errors (upload_status s) @ [global_record e]\<rparr>,
       threads := ths @ [(upload_worker file_path h d)\<lparr>w_e := e, w_pc := Exit\<rparr>]\<rparr>"
  using assms
  by (simp add: eval_nat_numeral worker_step_def set_status_def upload_worker_def)

lemma start_upload_accepted:
  assumes "fst (start_upload data s) = Success ''Upload started''"
  shows "\<exists>file_path h d. s_file_path (session s) = Some file_path \<and>
     status (upload_status s) \<noteq> Running \<and>
     snd (start_upload data s) =
       s\<lparr>upload_pause_event := False, upload_stop_event := False,
         session := (session s)\<lparr>s_image_mode :=
            Some (case r_image_mode data of None \<Rightarrow> ''local'' | Some m \<Rightarrow> m)\<rparr>,
         threads := threads s @ [upload_worker file_path h d]\<rparr>"
  using assms
  by (auto simp: start_upload_def Let_def split: option.splits if_splits delay_arg.splits)

text \<open>
  C2, as the code has it. An accepted \<open>/start\<close> clears the pause event and the stop
  event, leaves \<open>upload_status\<close> as it was, and starts one worker on line 116 with
  the file path of the session. It does not assign \<open>total\<close>, the counters or the
  error list: \<open>upload_file\<close> resets them, and the worker assigns \<open>total\<close> on
  line 117.
\<close>

theorem start_upload_clears_events:
  assumes "fst (start_upload data s) = Success ''Upload started''"
  shows "let s' = snd (start_upload data s)
         in \<not> upload_pause_event s' \<and> \<not> upload_stop_event s' \<and>
            upload_status s' = upload_status s \<and>
            (\<exists>file_path h d. s_file_path (session s) = Some file_path \<and>
               threads s' = threads s @ [upload_worker file_path h d])"
proof -
  from start_upload_accepted[OF assms] obtain file_path h d where
    fp: "s_file_path (session s) = Some file_path" and
    s1: "snd (start_upload data s) =
         s\<lparr>upload_pause_event := False, upload_stop_event := False,
         session := (session s)\<lparr>s_image_mode :=
            Some (case r_image_mode data of None \<Rightarrow> ''local'' | Some m \<Rightarrow> m)\<rparr>,
         threads := threads s @ [upload_worker file_path h d]\<rparr>"
    by blast
  show ?thesis unfolding Let_def s1 using fp by auto
qed

theorem start_upload_clears_events_witness:
  "fst (start_upload no_options (run sample_ext [post_upload ''good''] init)) =
     Success ''Upload started'' \<and>
   (let s' = snd (start_upload no_options (run sample_ext [post_upload ''good''] init))
    in \<not> upload_pause_event s' \<and> \<not> upload_stop_event s' \<and>
       upload_status s' = upload_status (run sample_ext [post_upload ''good''] init) \<and>
       (\<exists>file_path h d.
          s_file_path (session (run sample_ext [post_upload ''good''] init)) = Some file_path \<and>
          threads s' = threads (run sample_ext [post_upload ''good''] init) @
             [upload_worker file_path h d]))"
proof -
  have a: "fst (start_upload no_options (run sample_ext [post_upload ''good''] init)) =
     Success ''Upload started''" by code_simp
  from start_upload_clears_events[OF a] a show ?thesis by blast
qed

text \<open>
  The claim fails on both counts. After an upload of two rows an accepted start leaves
  \<open>total\<close> at 0; and a second start after a finished run keeps the record that the
  first run appended.
\<close>

theorem start_resets_status_counterexample:
  "fst (handle sample_ext (Start no_options) (run sample_ext [post_upload ''good''] init)) =
     Success ''Upload started'' \<and>
   s_product_count (session (run sample_ext [post_upload ''good''] init)) = Some 2 \<and>
   total (upload_status (run sample_ext [post_upload ''good'', post_start] init)) = 0 \<and>
   fst (handle sample_ext (Start no_options) (run sample_ext
     [post_upload ''good'', post_start, Work 0, Work 0, Work 0, Work 0, Work 0, Work 0, Work 0]
     init)) = Success ''Upload started'' \<and>
   errors (upload_status (run sample_ext
     [post_upload ''good'', post_start, Work 0, Work 0, Work 0, Work 0, Work 0, Work 0, Work 0,
      post_start] init)) = [note_record]"
  by code_simp

text \<open>
  The guard of line 204: \<open>/start\<close> answers that an upload is already in progress
  exactly when a file path is in the session and the state is running, and then changes
  nothing. With a file path, any other state and a delay that \<open>int\<close> accepts, it is
  accepted and starts one more worker.
\<close>

lemma start_rejected_when_running:
  "(fst (start_upload data s) = Failure 400 ''Upload already in progress'' \<longleftrightarrow>
      s_file_path (session s) \<noteq> None \<and> status (upload_status s) = Running) \<and>
   (status (upload_status s) = Running \<longrightarrow> snd (start_upload data s) = s) \<and>
   (s_file_path (session s) \<noteq> None \<and> status (upload_status s) \<noteq> Running \<and>
    r_delay data \<noteq> Some Int_raises \<longrightarrow>
      fst (start_upload data s) = Success ''Upload started'' \<and>
      length (threads (snd (start_upload data s))) = length (threads s) + 1)"
  by (auto simp: start_upload_def Let_def split: option.splits delay_arg.splits)

text \<open>
  C4. The claim asks that \<open>/start\<close> be rejected whenever a worker is active, the
  paused state included, so that two workers are never active together. The code does
  not keep it. A worker assigns the state running only on line 118, so a second
  \<open>/start\<close> served before that line is accepted: after one upload and two starts two
  workers are active. And a \<open>/start\<close> in the paused state is accepted, where
  \<open>stop_upload\<close> counts that state as an active upload.
\<close>

theorem two_workers_active:
  "fst (handle sample_ext (Start no_options)
     (run sample_ext [post_upload ''good'', post_start] init)) = Success ''Upload started'' \<and>
   active (run sample_ext [post_upload ''good'', post_start] init) = 1 \<and>
   active (run sample_ext [post_upload ''good'', post_start, post_start] init) = 2 \<and>
   fst (start_upload no_options
     ((run sample_ext [post_upload ''good'', post_start] init)
        \<lparr>upload_status := initial_status\<lparr>status := Paused\<rparr>\<rparr>)) = Success ''Upload started''"
  by code_simp

subsection \<open>The run of a worker\<close>

text \<open>
  C3, as the code has it. Take a reachable state, an accepted \<open>/start\<close> in it, and
  let the parser return the rows \<open>products\<close> for the file of the session. Then the
  seven lines of the new worker, with any requests to \<open>/status\<close>, \<open>/pause\<close>,
  \<open>/resume\<close> and \<open>/stop\<close> served between them, and whatever the options were,
  set \<open>total\<close> to the number of rows, append the one record with reference
  \<open>note\<close>, sleep five seconds, set the state to completed and return; \<open>current\<close>,
  \<open>success\<close> and \<open>failed\<close> are 0 and the processor is not called.
\<close>

theorem stub_path:
  assumes "reachable E s"
    and "fst (start_upload data s) = Success ''Upload started''"
    and "parse_spreadsheet E (disk s (the (s_file_path (session s)))) = Inr products"
    and "\<forall>j. list_all control (cs j)"
  shows "let t = length (threads s);
             s' = run E (interleaved cs t 7) (snd (start_upload data s));
             w = threads s' ! t
         in upload_status s' =
              \<lparr>total = length products, current = 0, success = 0, failed = 0,
               status = Completed, errors = errors (upload_status s) @ [note_record],
               current_product = current_product (upload_status s)\<rparr> \<and>
            w_pc w = Exit \<and> w_slept w = 5 \<and> w_calls w = [] \<and> w_products w = products"
proof -
  let ?s1 = "snd (start_upload data s)"
  let ?t = "length (threads s)"
  from start_upload_accepted[OF assms(2)] obtain file_path h d where
    fp: "s_file_path (session s) = Some file_path" and
    s1: "?s1 = s\<lparr>upload_pause_event := False, upload_stop_event := False,
         session := (session s)\<lparr>s_image_mode :=
            Some (case r_image_mode data of None \<Rightarrow> ''local'' | Some m \<Rightarrow> m)\<rparr>,
         threads := threads s @ [upload_worker file_path h d]\<rparr>"
    by blast
  have th: "threads ?s1 = threads s @ [upload_worker file_path h d]"
    and dk: "disk ?s1 = disk s" and us: "upload_status ?s1 = upload_status s"
    by (simp_all add: s1)
  from assms(3) fp dk have parse: "parse_spreadsheet E (disk ?s1 file_path) = Inr products"
    by simp
  have seq: "run E (replicate 7 (Work ?t)) ?s1 =
     ?s1\<lparr>upload_status := (upload_status ?s1)
          \<lparr>total := length products, status := Completed,
           errors := errors (upload_status ?s1) @ [note_record]\<rparr>,
       threads := threads s @ [(upload_worker file_path h d)
          \<lparr>w_products := products, w_pc := Exit, w_slept := 5\<rparr>]\<rparr>"
    by (rule run_stub_ok[OF th parse])
  have t: "?t < length (threads ?s1)" and st: "stub_line (w_pc (threads ?s1 ! ?t))"
    by (simp_all add: th upload_worker_def stub_line_def)
  have "frame ?s1 ?s1" by (simp add: frame_def)
  from frame_interleaved[OF this t st assms(4), of E 7]
  have fr: "frame (run E (replicate 7 (Work ?t)) ?s1) (run E (interleaved cs ?t 7) ?s1)" .
  from stub_inv_reachable[OF assms(1)]
  have z: "current (upload_status s) = 0" "success (upload_status s) = 0"
    "failed (upload_status s) = 0" by (simp_all add: stub_inv_def)
  have u: "upload_status (run E (interleaved cs ?t 7) ?s1) =
      (upload_status s)\<lparr>total := length products, status := Completed,
           errors := errors (upload_status s) @ [note_record]\<rparr>"
    and w: "threads (run E (interleaved cs ?t 7) ?s1) =
      threads s @ [(upload_worker file_path h d)
          \<lparr>w_products := products, w_pc := Exit, w_slept := 5\<rparr>]"
    using fr unfolding seq frame_def by (simp_all add: us)
  show ?thesis
    unfolding Let_def u w using z by (simp add: upload_worker_def)
qed

theorem stub_path_witness:
  "reachable sample_ext (run sample_ext [post_upload ''good''] init) \<and>
   fst (start_upload no_options (run sample_ext [post_upload ''good''] init)) =
     Success ''Upload started'' \<and>
   parse_spreadsheet sample_ext (disk (run sample_ext [post_upload ''good''] init)
      (the (s_file_path (session (run sample_ext [post_upload ''good''] init))))) =
     Inr [item_A, item_B] \<and>
   (\<forall>j. list_all control (sample_requests j)) \<and>
   (let t = length (threads (run sample_ext [post_upload ''good''] init));
        s' = run sample_ext (interleaved sample_requests t 7)
               (snd (start_upload no_options (run sample_ext [post_upload ''good''] init)));
        w = threads s' ! t
    in upload_status s' =
              \<lparr>total = length [item_A, item_B], current = 0, success = 0, failed = 0,
               status = Completed,
               errors = errors (upload_status (run sample_ext [post_upload ''good''] init)) @
                  [note_record],
               current_product =
                  current_product (upload_status (run sample_ext [post_upload ''good''] init))\<rparr> \<and>
            w_pc w = Exit \<and> w_slept w = 5 \<and> w_calls w = [] \<and> w_products w = [item_A, item_B])"
proof -
  let ?s = "run sample_ext [post_upload ''good''] init"
  have r: "reachable sample_ext ?s" by (rule reachable_run[OF reachable_init])
  have a: "fst (start_upload no_options ?s) = Success ''Upload started''" by code_simp
  have p: "parse_spreadsheet sample_ext (disk ?s (the (s_file_path (session ?s)))) =
     Inr [item_A, item_B]"
    by (simp add: sample_ext_def post_upload_def upload_file_def init_def
        allowed_spreadsheet_file_def lower_def lower_char_def rsplit_dot_1_def
        ALLOWED_SPREADSHEET_EXTENSIONS_def path_join_def Let_def)
  have c: "\<forall>j. list_all control (sample_requests j)" by (simp add: sample_requests_def)
  from stub_path[OF r a p c] r a p c show ?thesis by blast
qed

text \<open>
  Without the hypothesis on the parser the claim fails: when \<open>parse_spreadsheet\<close>
  raises on line 116 the run ends in the state error with one record with reference
  \<open>global\<close>, and \<open>total\<close> is not assigned. The file of the session can be one
  that does not parse: \<open>upload_file\<close> saves a file before it parses it, and a
  failed upload leaves the file path of an earlier upload in the session.
\<close>

theorem stub_path_parse_failure_counterexample:
  "fst (handle sample_ext (Start no_options)
     (run sample_ext [post_upload ''good'', post_upload ''bad''] init)) =
     Success ''Upload started'' \<and>
   map w_pc (threads (run sample_ext
     [post_upload ''good'', post_upload ''bad'', post_start, Work 0, Work 0, Work 0] init)) =
     [Exit] \<and>
   upload_status (run sample_ext
     [post_upload ''good'', post_upload ''bad'', post_start, Work 0, Work 0, Work 0] init) =
     \<lparr>total = 0, current = 0, success = 0, failed = 0, status = Error,
      errors = [global_record ''bad spreadsheet''], current_product = ''''\<rparr>"
  by code_simp

text \<open>
  C5, as the code has it. \<open>/start\<close> does not parse: with a file path in the session,
  a state other than running and a delay that \<open>int\<close> accepts it is accepted also
  when the file does not parse. The worker then meets the exception on line 116: its
  three lines set the state to error and append one record with reference \<open>global\<close>
  that carries the message; the counters and \<open>total\<close> stay as they were and the
  processor is not called.
\<close>

theorem parse_failure_in_worker:
  assumes "s_file_path (session s) = Some file_path"
    and "status (upload_status s) \<noteq> Running"
    and "r_delay data \<noteq> Some Int_raises"
    and "parse_spreadsheet E (disk s file_path) = Inl e"
  shows "fst (start_upload data s) = Success ''Upload started'' \<and>
     (let t = length (threads s);
          s' = run E (replicate 3 (Work t)) (snd (start_upload data s))
      in upload_status s' =
           (upload_status s)\<lparr>status := Error,
              errors := errors (upload_status s) @ [global_record e]\<rparr> \<and>
         length (threads s') = length (threads s) + 1 \<and>
         w_pc (threads s' ! t) = Exit \<and> w_calls (threads s' ! t) = [])"
proof -
  let ?s1 = "snd (start_upload data s)"
  from assms(1-3) have acc: "fst (start_upload data s) = Success ''Upload started''"
    by (auto simp: start_upload_def Let_def split: option.splits delay_arg.splits)
  from start_upload_accepted[OF acc] assms(1) obtain h d where
    s1: "?s1 = s\<lparr>upload_pause_event := False, upload_stop_event := False,
         session := (session s)\<lparr>s_image_mode :=
            Some (case r_image_mode data of None \<Rightarrow> ''local'' | Some m \<Rightarrow> m)\<rparr>,
         threads := threads s @ [upload_worker file_path h d]\<rparr>"
    by auto
  have th: "threads ?s1 = threads s @ [upload_worker file_path h d]"
    and dk: "disk ?s1 = disk s" and us: "upload_status ?s1 = upload_status s"
    by (simp_all add: s1)
  from assms(4) dk have parse: "parse_spreadsheet E (disk ?s1 file_path) = Inl e" by simp
  show ?thesis
    unfolding Let_def run_stub_error[OF th parse]
    using acc us by (simp add: upload_worker_def)
qed

theorem parse_failure_in_worker_witness:
  "s_file_path (session (run sample_ext [post_upload ''good'', post_upload ''bad''] init)) =
     Some ''/tmp/s/a.csv'' \<and>
   status (upload_status (run sample_ext [post_upload ''good'', post_upload ''bad''] init)) \<noteq>
     Running \<and>
   r_delay no_options \<noteq> Some Int_raises \<and>
   parse_spreadsheet sample_ext
     (disk (run sample_ext [post_upload ''good'', post_upload ''bad''] init) ''/tmp/s/a.csv'') =
     Inl ''bad spreadsheet'' \<and>
   fst (start_upload no_options (run sample_ext [post_upload ''good'', post_upload ''bad''] init)) =
     Success ''Upload started''"
proof -
  let ?s = "run sample_ext [post_upload ''good'', post_upload ''bad''] init"
  have f: "s_file_path (session ?s) = Some ''/tmp/s/a.csv''" by code_simp
  have n: "status (upload_status ?s) \<noteq> Running" by code_simp
  have d: "r_delay no_options \<noteq> Some Int_raises" by (simp add: no_options_def)
  have p: "parse_spreadsheet sample_ext (disk ?s ''/tmp/s/a.csv'') = Inl ''bad spreadsheet''"
    by (simp add: sample_ext_def post_upload_def upload_file_def init_def
        allowed_spreadsheet_file_def lower_def lower_char_def rsplit_dot_1_def
        ALLOWED_SPREADSHEET_EXTENSIONS_def path_join_def Let_def)
  from parse_failure_in_worker[OF f n d p] f n d p show ?thesis by blast
qed

text \<open>
  The claim fails: the start below is accepted from the idle state, a worker is started,
  and the state becomes error with one more error record.
\<close>

theorem start_rejected_input_counterexample:
  "fst (handle sample_ext (Start no_options)
     (run sample_ext [post_upload ''good'', post_upload ''bad''] init)) =
     Success ''Upload started'' \<and>
   status (upload_status (run sample_ext [post_upload ''good'', post_upload ''bad''] init)) = Idle \<and>
   length (threads (run sample_ext
     [post_upload ''good'', post_upload ''bad'', post_start] init)) = 1 \<and>
   status (upload_status (run sample_ext
     [post_upload ''good'', post_upload ''bad'', post_start, Work 0, Work 0] init)) = Error \<and>
   errors (upload_status (run sample_ext
     [post_upload ''good'', post_upload ''bad'', post_start, Work 0, Work 0, Work 0] init)) =
     [global_record ''bad spreadsheet'']"
  by code_simp

subsection \<open>The loop of lines 142 to 184\<close>









text \<open>
  In the witness above two items are given, the stop is requested after the first item
  is done and before line 144 of the second, and the run ends with one success and the
  state completed.

  As app.py is written no worker reaches line 144, and the state is never stopped or
  paused either.
\<close>

lemma never_stopped:
  "reachable E s \<Longrightarrow> status (upload_status s) \<noteq> Stopped \<and> status (upload_status s) \<noteq> Paused"
  using stub_inv_reachable[of E s] by (simp add: stub_inv_def)

text \<open>Nor does any worker have the processor or the table of image mappings.\<close>

lemma never_bound:
  "reachable E s \<Longrightarrow> w \<in> set (threads s) \<Longrightarrow>
     w_automation w = None \<and> w_image_mappings w = None \<and> w_calls w = [] \<and> stub_line (w_pc w)"
  using stub_inv_reachable[of E s] by (simp add: stub_inv_def)












subsection \<open>Image mappings\<close>

text \<open>
  What an accepted \<open>upload_image\<close> leaves in the session: the first one of a session
  the table with its one entry, every later one the table as it was.
\<close>

lemma upload_image_not_saved:
  assumes "s_image_mappings (session s) \<noteq> None"
  shows "session (snd (upload_image E req s)) = session s"
  using assms
  by (auto simp: upload_image_def submit_image_mapping_def save_session_def Let_def
      split: option.splits prod.splits)

lemma upload_image_first:
  assumes "fst (upload_image E req s) = Saved q" and "s_image_mappings (session s) = None"
  shows "\<exists>p. r_original_path req = Some p \<and>
         session (snd (upload_image E req s)) =
           (session s)\<lparr>s_image_mappings := Some [p \<mapsto> q]\<rparr>"
  using assms
  by (auto simp: upload_image_def submit_image_mapping_def save_session_def Let_def
      split: option.splits prod.splits if_splits)

text \<open>
  C9. The claim asks that after a submission of \<open>q\<close> for \<open>p\<close> the table maps
  \<open>p\<close> to \<open>q\<close>, the last submission winning, and that a path with no submission
  resolves to itself. The code does not keep the first part. Line 262 changes the
  dictionary inside the session, which Flask does not write back once the key
  \<open>image_mappings\<close> exists: a second image for \<open>a.png\<close> is accepted and saved, and
  the table still gives the first one; an image for \<open>b.png\<close> after that is accepted
  and \<open>b.png\<close> still resolves to itself.
\<close>

theorem later_mapping_lost:
  "fst (handle sample_ext (Upload_image
      \<lparr>r_image = Some (''first.png'', ''image''), r_index = Some ''0'',
       r_original_path = Some ''a.png''\<rparr>) init) = Saved ''/tmp/i/first.png'' \<and>
   map_option (\<lambda>m. m ''a.png'')
     (s_image_mappings (session (run sample_ext [post_image ''first.png'' ''a.png''] init))) =
     Some (Some ''/tmp/i/first.png'') \<and>
   fst (handle sample_ext (Upload_image
      \<lparr>r_image = Some (''second.png'', ''image''), r_index = Some ''0'',
       r_original_path = Some ''a.png''\<rparr>)
      (run sample_ext [post_image ''first.png'' ''a.png''] init)) = Saved ''/tmp/i/second.png'' \<and>
   map_option (\<lambda>m. resolve m ''a.png'')
     (s_image_mappings (session (run sample_ext
        [post_image ''first.png'' ''a.png'', post_image ''second.png'' ''a.png''] init))) =
     Some ''/tmp/i/first.png'' \<and>
   fst (handle sample_ext (Upload_image
      \<lparr>r_image = Some (''third.png'', ''image''), r_index = Some ''1'',
       r_original_path = Some ''b.png''\<rparr>)
      (run sample_ext [post_image ''first.png'' ''a.png''] init)) = Saved ''/tmp/i/third.png'' \<and>
   map_option (\<lambda>m. resolve m ''b.png'')
     (s_image_mappings (session (run sample_ext
        [post_image ''first.png'' ''a.png'', post_image ''third.png'' ''b.png''] init))) =
     Some ''b.png''"
  by code_simp

subsection \<open>The snapshot served by \<open>/status\<close>\<close>

text \<open>
  C7, as the code has it. In every state that requests and worker lines can reach from
  the start of the process, the snapshot that \<open>get_status\<close> returns has
  \<open>success + failed \<le> current \<le> total\<close>, with \<open>current\<close>, \<open>success\<close> and
  \<open>failed\<close> all 0. \<open>total\<close> is not fixed at the start of a run: \<open>/upload\<close> sets
  it to 0, line 117 of a worker sets it to the number of rows that the worker parsed,
  and every other request and worker line leaves it as it is.
\<close>

theorem snapshot_invariant:
  assumes "reachable E s" and "fst (get_status s) = Snapshot u"
  shows "success u + failed u \<le> current u \<and> current u \<le> total u \<and>
         current u = 0 \<and> success u = 0 \<and> failed u = 0 \<and>
         (\<forall>l. total (upload_status (step E l s)) =
            (case l of
               Req (Upload req) \<Rightarrow> 0
             | Req _ \<Rightarrow> total u
             | Work t \<Rightarrow>
                 if t < length (threads s) \<and> w_pc (threads s ! t) = L117
                 then length (w_products (threads s ! t)) else total u))"
proof -
  from assms(2) have u: "u = upload_status s" by (simp add: get_status_def)
  from stub_inv_reachable[OF assms(1)] have inv: "stub_inv s" .
  have req: "total (upload_status (step E (Req r) s)) =
      (case r of Upload req \<Rightarrow> 0 | _ \<Rightarrow> total u)" for r
  proof (cases r)
    case (Upload req)
    then show ?thesis by (simp add: upload_file_status initial_status_def)
  next
    case (Start data)
    then show ?thesis
      by (simp add: u start_upload_def Let_def split: option.splits delay_arg.splits)
  next
    case (Upload_image req)
    then show ?thesis
      by (simp add: u upload_image_def Let_def split: option.splits prod.splits)
  qed (simp_all add: u get_status_def pause_upload_def resume_upload_def stop_upload_def)
  have work: "total (upload_status (step E (Work t) s)) =
      (if t < length (threads s) \<and> w_pc (threads s ! t) = L117
       then length (w_products (threads s ! t)) else total u)" for t
  proof (cases "t < length (threads s)")
    case False
    then show ?thesis by (simp add: u)
  next
    case True
    with inv have "stub_line (w_pc (threads s ! t))" by (auto simp: stub_inv_def)
    with True show ?thesis
      by (cases "w_pc (threads s ! t)")
         (auto simp: u stub_line_def worker_step_def set_status_def split: sum.splits)
  qed
  have "total (upload_status (step E l s)) =
            (case l of
               Req (Upload req) \<Rightarrow> 0
             | Req _ \<Rightarrow> total u
             | Work t \<Rightarrow>
                 if t < length (threads s) \<and> w_pc (threads s ! t) = L117
                 then length (w_products (threads s ! t)) else total u)" for l
  proof (cases l)
    case (Req r)
    then show ?thesis using req[of r] by (cases r) simp_all
  next
    case (Work t)
    then show ?thesis using work[of t] by simp
  qed
  with inv u show ?thesis by (simp add: stub_inv_def)
qed

theorem snapshot_invariant_witness:
  "reachable sample_ext
     (run sample_ext [post_upload ''good'', post_start, Work 0, Work 0, Work 0, Work 0] init) \<and>
   fst (get_status
     (run sample_ext [post_upload ''good'', post_start, Work 0, Work 0, Work 0, Work 0] init)) =
     Snapshot \<lparr>total = 2, current = 0, success = 0, failed = 0, status = Running,
               errors = [note_record], current_product = ''''\<rparr> \<and>
   success \<lparr>total = 2, current = 0, success = 0, failed = 0, status = Running,
               errors = [note_record], current_product = ''''\<rparr> +
   failed \<lparr>total = 2, current = 0, success = 0, failed = 0, status = Running,
               errors = [note_record], current_product = ''''\<rparr>
   \<le> current \<lparr>total = 2, current = 0, success = 0, failed = 0, status = Running,
               errors = [note_record], current_product = ''''\<rparr>"
proof -
  let ?s = "run sample_ext [post_upload ''good'', post_start, Work 0, Work 0, Work 0, Work 0] init"
  let ?u = "\<lparr>total = 2, current = 0, success = 0, failed = 0, status = Running,
             errors = [note_record], current_product = ''''\<rparr>"
  have r: "reachable sample_ext ?s" by (rule reachable_run[OF reachable_init])
  have g: "fst (get_status ?s) = Snapshot ?u" by code_simp
  from snapshot_invariant[OF r g] r g show ?thesis by blast
qed

text \<open>
  The claim fails on \<open>total\<close>: it is 0 after an accepted start for two rows, 2 after
  line 117, and 0 again after an upload served while the worker is on line 118; the run
  then ends with \<open>total = 0\<close>.
\<close>

theorem total_not_fixed_counterexample:
  "fst (handle sample_ext (Start no_options) (run sample_ext [post_upload ''good''] init)) =
     Success ''Upload started'' \<and>
   total (upload_status (run sample_ext [post_upload ''good'', post_start] init)) = 0 \<and>
   total (upload_status (run sample_ext [post_upload ''good'', post_start, Work 0, Work 0]
     init)) = 2 \<and>
   total (upload_status (run sample_ext
     [post_upload ''good'', post_start, Work 0, Work 0, post_upload ''good''] init)) = 0 \<and>
   map w_pc (threads (run sample_ext
     [post_upload ''good'', post_start, Work 0, Work 0, post_upload ''good''] init)) = [L118] \<and>
   upload_status (run sample_ext
     [post_upload ''good'', post_start, Work 0, Work 0, post_upload ''good'',
      Work 0, Work 0, Work 0, Work 0, Work 0] init) =
     \<lparr>total = 0, current = 0, success = 0, failed = 0, status = Completed,
      errors = [note_record], current_product = ''''\<rparr>"
  by code_simp

subsection \<open>Uploading a spreadsheet\<close>

text \<open>
  C10. \<open>upload_file\<close> replaces \<open>upload_status\<close> by the initial dictionary (state
  idle, the four counters 0, no errors, no current product) on every path, in every
  state and for every request, also while workers are running.
\<close>

theorem upload_file_resets_status:
  "upload_status (snd (upload_file E req s)) =
     \<lparr>total = 0, current = 0, success = 0, failed = 0, status = Idle, errors = [],
      current_product = ''''\<rparr>"
  using upload_file_status[of E req s] by (simp add: initial_status_def)

text \<open>An upload while a worker is between lines 121 and 128 and the state is running.\<close>

theorem upload_file_resets_status_witness:
  "status (upload_status
     (run sample_ext [post_upload ''good'', post_start, Work 0, Work 0, Work 0, Work 0] init)) =
     Running \<and>
   upload_status (snd (upload_file sample_ext \<lparr>r_file = Some (''a.csv'', ''good'')\<rparr>
     (run sample_ext [post_upload ''good'', post_start, Work 0, Work 0, Work 0, Work 0] init))) =
     \<lparr>total = 0, current = 0, success = 0, failed = 0, status = Idle, errors = [],
      current_product = ''''\<rparr>"
proof -
  have r: "status (upload_status
     (run sample_ext [post_upload ''good'', post_start, Work 0, Work 0, Work 0, Work 0] init)) =
     Running" by code_simp
  from upload_file_resets_status[of sample_ext "\<lparr>r_file = Some (''a.csv'', ''good'')\<rparr>"
     "run sample_ext [post_upload ''good'', post_start, Work 0, Work 0, Work 0, Work 0] init"] r
  show ?thesis by blast
qed

end
